theory Spec2Isabelle
  imports Complex_Main "HOL-Library.AList"
begin

section \<open>The temperature monitor (pyTempMonitor.pyw)\<close>

text \<open>
  The model follows class \<open>MainWindow\<close>. Python floats are idealised as \<^typ>\<open>real\<close>;
  the dictionaries keyed by the device id are maps, a missing key is a \<open>KeyError\<close>.
  The two dictionaries of numpy arrays, \<open>temp_data\<close> and \<open>voltage_data\<close>, are association
  lists (the code tests \<open>temp_data\<close> for emptiness); an array of shape (rows, columns) is the
  list of its rows, one row per channel and one column per acquisition cycle.
  Every Python exception the modelled code can raise is a value of \<open>error\<close>;
  \<open>IOError\<close> stands for a failure of the hardware or of the logger.
  The fields \<open>alarm_emails\<close>, \<open>canvas\<close> and \<open>after_calls\<close> record the effects on the
  outside: the calls of \<open>send_alarm_email\<close>, what was last drawn, and how many times
  \<open>self.after\<close> has armed the timer. In \<open>config\<close> only the options \<open>max_temp_i\<close> of each
  section are kept, under the index \<open>i\<close>.
\<close>

type_synonym key = string

datatype error =
    ZeroDivisionError
  | ValueError
  | IndexError
  | KeyError
  | TypeError
  | NoSectionError
  | IOError

text \<open>One raw reading \<open>mV\<close>: \<open>mV[0]\<close> is the millivolt value, \<open>mV[1]\<close> the channel number.\<close>

type_synonym reading = "real \<times> nat"

text \<open>
  A value of \<open>datetime.now()\<close>: year, month, day, hour, minute, second. \<open>time_data\<close>
  holds only what \<open>update_data\<close> appends, the rendering of such a value by
  \<open>strftime("%Y-%m-%d %H:%M:%S")\<close>, and \<open>update_plot\<close> parses it back with
  \<open>dtype='datetime64'\<close>; the model keeps the value itself, so that every entry of
  \<open>time_data\<close> is a well-formed time and the parse cannot fail.
\<close>

datatype datetime = Datetime nat nat nat nat nat nat

text \<open>What \<open>update_plot\<close> hands to the axes: the time window and one series per plotted channel.\<close>

type_synonym plot = "datetime list \<times> (string \<times> real list) list"

record monitor =
  ljsID :: "key list"
  vin :: "key \<rightharpoonup> real"
  read_channels :: "key \<rightharpoonup> nat list"
  labels :: "key \<rightharpoonup> string list"
  max_temps :: "key \<rightharpoonup> real list"
  resistances :: "key \<rightharpoonup> real list"
  plot_channel :: "key \<rightharpoonup> bool list"
  log_max :: int
  temp_interpolate_50k :: "(real \<Rightarrow> error + real) option"
  alarm_triggered :: "key \<rightharpoonup> bool list"
  time_data :: "datetime list"
  temp_data :: "(key \<times> real list list) list"
  voltage_data :: "(key \<times> real list list) list"
  max_temp_entries :: "(key \<times> string list) list"
  config :: "string \<rightharpoonup> (nat \<rightharpoonup> real)"
  alarm_emails :: "(key \<times> nat \<times> real) list"
  canvas :: "plot option"
  after_calls :: nat

subsection \<open>Python primitives used by the code\<close>

text \<open>\<open>d[k]\<close> on a dictionary.\<close>

definition getitem :: "('k \<rightharpoonup> 'v) \<Rightarrow> 'k \<Rightarrow> error + 'v" where
  "getitem d k = (case d k of None \<Rightarrow> Inl KeyError | Some v \<Rightarrow> Inr v)"

text \<open>\<open>xs[i]\<close> on a list, for the non-negative indices the code uses.\<close>

definition nth_item :: "'a list \<Rightarrow> nat \<Rightarrow> error + 'a" where
  "nth_item xs i = (if i < length xs then Inr (xs ! i) else Inl IndexError)"

text \<open>\<open>xs.index(a)\<close>: the first position of \<open>a\<close>, a \<open>ValueError\<close> when it is absent.\<close>

fun index_of :: "'a list \<Rightarrow> 'a \<Rightarrow> error + nat" where
  "index_of [] a = Inl ValueError"
| "index_of (x # xs) a =
     (if x = a then Inr 0
      else (case index_of xs a of Inl e \<Rightarrow> Inl e | Inr n \<Rightarrow> Inr (Suc n)))"

text \<open>\<open>a / b\<close> on Python floats.\<close>

definition truediv :: "real \<Rightarrow> real \<Rightarrow> error + real" where
  "truediv a b = (if b = 0 then Inl ZeroDivisionError else Inr (a / b))"

subsection \<open>processVoltage\<close>

text \<open>
  The body of the \<open>for mV in voltages\<close> loop: the reference resistance of the channel is
  looked up, the resistance is computed with the constant \<open>vin = 2.5\<close> (the device's
  \<open>self.vin[key]\<close> is commented out in the source), and the interpolator is called.
  The result is the pair (temperature, resistance) that the loop appends.
\<close>

definition processVoltage_body :: "monitor \<Rightarrow> key \<Rightarrow> reading \<Rightarrow> error + (real \<times> real)" where
  "processVoltage_body s k mV =
     (let v = fst mV / 1000;
          i = snd mV;
          vin = 2.5
      in case getitem (resistances s) k of Inl e \<Rightarrow> Inl e | Inr rs \<Rightarrow>
         (case getitem (read_channels s) k of Inl e \<Rightarrow> Inl e | Inr chans \<Rightarrow>
         (case index_of chans i of Inl e \<Rightarrow> Inl e | Inr n \<Rightarrow>
         (case nth_item rs n of Inl e \<Rightarrow> Inl e | Inr r1 \<Rightarrow>
         (case truediv (r1 * v) (vin - v) of Inl e \<Rightarrow> Inl e | Inr r \<Rightarrow>
         (case temp_interpolate_50k s of None \<Rightarrow> Inl TypeError | Some f \<Rightarrow>
         (case f r of Inl e \<Rightarrow> Inl e | Inr t \<Rightarrow> Inr (t, r))))))))"

fun processVoltage_loop ::
  "monitor \<Rightarrow> key \<Rightarrow> reading list \<Rightarrow> real list \<Rightarrow> real list \<Rightarrow> error + (real list \<times> real list)" where
  "processVoltage_loop s k [] temp resistance = Inr (temp, resistance)"
| "processVoltage_loop s k (mV # rest) temp resistance =
     (case processVoltage_body s k mV of
        Inl e \<Rightarrow> Inl e
      | Inr (t, r) \<Rightarrow> processVoltage_loop s k rest (temp @ [t]) (resistance @ [r]))"

definition processVoltage :: "monitor \<Rightarrow> reading list \<Rightarrow> key \<Rightarrow> error + (real list \<times> real list)" where
  "processVoltage s voltages k = processVoltage_loop s k voltages [] []"

subsection \<open>check_alarms and send_alarm_email\<close>

text \<open>
  \<open>send_alarm_email\<close> builds the message and hands it to smtplib inside
  \<open>try ... except Exception\<close>: it never raises. The model records the call.
\<close>

definition send_alarm_email :: "monitor \<Rightarrow> key \<Rightarrow> nat \<Rightarrow> real \<Rightarrow> monitor" where
  "send_alarm_email s k channel_index temp_val =
     s\<lparr>alarm_emails := alarm_emails s @ [(k, channel_index, temp_val)]\<rparr>"

text \<open>\<open>self.alarm_triggered[key][i] = b\<close>.\<close>

definition set_alarm_triggered :: "monitor \<Rightarrow> key \<Rightarrow> nat \<Rightarrow> bool \<Rightarrow> error option \<times> monitor" where
  "set_alarm_triggered s k i b =
     (case alarm_triggered s k of
        None \<Rightarrow> (Some KeyError, s)
      | Some trig \<Rightarrow>
          if i < length trig
          then (None, s\<lparr>alarm_triggered := (alarm_triggered s)(k \<mapsto> trig[i := b])\<rparr>)
          else (Some IndexError, s))"

text \<open>The body of the loop of \<open>check_alarms\<close> for channel \<open>i\<close> and its temperature.\<close>

definition check_alarms_body :: "key \<Rightarrow> nat \<Rightarrow> real \<Rightarrow> monitor \<Rightarrow> error option \<times> monitor" where
  "check_alarms_body k i temp_val s =
     (case getitem (max_temps s) k of Inl e \<Rightarrow> (Some e, s) | Inr mts \<Rightarrow>
     (case nth_item mts i of Inl e \<Rightarrow> (Some e, s) | Inr mt \<Rightarrow>
        if temp_val > mt then
          (case getitem (alarm_triggered s) k of Inl e \<Rightarrow> (Some e, s) | Inr trig \<Rightarrow>
          (case nth_item trig i of Inl e \<Rightarrow> (Some e, s) | Inr flag \<Rightarrow>
             if \<not> flag
             then set_alarm_triggered (send_alarm_email s k i temp_val) k i True
             else (None, s)))
        else set_alarm_triggered s k i False))"

fun check_alarms_loop :: "key \<Rightarrow> nat \<Rightarrow> real list \<Rightarrow> monitor \<Rightarrow> error option \<times> monitor" where
  "check_alarms_loop k i [] s = (None, s)"
| "check_alarms_loop k i (temp_val # rest) s =
     (case check_alarms_body k i temp_val s of
        (Some e, s') \<Rightarrow> (Some e, s')
      | (None, s') \<Rightarrow> check_alarms_loop k (Suc i) rest s')"

definition check_alarms :: "monitor \<Rightarrow> real list \<Rightarrow> key \<Rightarrow> error option \<times> monitor" where
  "check_alarms s temp k = check_alarms_loop k 0 temp s"

subsection \<open>update_plot\<close>

text \<open>
  The slice \<open>xs[-m:]\<close> of Python and numpy, for any integer \<open>m\<close>: the start index
  \<open>-m\<close> counts from the end when it is negative and is clipped to the list.
\<close>

definition slice_last :: "int \<Rightarrow> 'a list \<Rightarrow> 'a list" where
  "slice_last m xs =
     (let n = int (length xs);
          start = - m;
          lo = (if start < 0 then max (n + start) 0 else min start n)
      in drop (nat lo) xs)"

text \<open>
  \<open>self.ax.plot(time_array, temp_array[i], label=label)\<close>: matplotlib raises a
  \<open>ValueError\<close> when the two arrays differ in length; otherwise the series is drawn.
\<close>

definition ax_plot :: "datetime list \<Rightarrow> real list \<Rightarrow> string \<Rightarrow> error + (string \<times> real list)" where
  "ax_plot time_array row label =
     (if length time_array = length row then Inr (label, row) else Inl ValueError)"

text \<open>The inner loop over \<open>enumerate(self.labels[key])\<close>: the series that are drawn.\<close>

fun plot_series ::
  "monitor \<Rightarrow> key \<Rightarrow> datetime list \<Rightarrow> real list list \<Rightarrow> nat \<Rightarrow> string list \<Rightarrow>
   error + (string \<times> real list) list" where
  "plot_series s k time_array temp_array i [] = Inr []"
| "plot_series s k time_array temp_array i (label # rest) =
     (case getitem (plot_channel s) k of Inl e \<Rightarrow> Inl e | Inr flags \<Rightarrow>
     (case nth_item flags i of Inl e \<Rightarrow> Inl e | Inr ticked \<Rightarrow>
        if ticked then
          (case nth_item temp_array i of Inl e \<Rightarrow> Inl e | Inr row \<Rightarrow>
          (case ax_plot time_array row label of Inl e \<Rightarrow> Inl e | Inr drawn \<Rightarrow>
          (case plot_series s k time_array temp_array (Suc i) rest of Inl e \<Rightarrow> Inl e
           | Inr others \<Rightarrow> Inr (drawn # others))))
        else plot_series s k time_array temp_array (Suc i) rest))"

text \<open>The loop \<open>for key in self.ljsID\<close> of \<open>update_plot\<close>.\<close>

fun plot_devices ::
  "monitor \<Rightarrow> int \<Rightarrow> datetime list \<Rightarrow> key list \<Rightarrow> error + (string \<times> real list) list" where
  "plot_devices s max_points time_array [] = Inr []"
| "plot_devices s max_points time_array (k # ks) =
     (case getitem (map_of (temp_data s)) k of Inl e \<Rightarrow> Inl e | Inr rows \<Rightarrow>
     (let temp_array = map (slice_last max_points) rows in
      case getitem (labels s) k of Inl e \<Rightarrow> Inl e | Inr ls \<Rightarrow>
     (case plot_series s k time_array temp_array 0 ls of Inl e \<Rightarrow> Inl e | Inr here \<Rightarrow>
     (case plot_devices s max_points time_array ks of Inl e \<Rightarrow> Inl e
      | Inr others \<Rightarrow> Inr (here @ others)))))"

text \<open>
  \<open>update_plot\<close>: \<open>None\<close> is the early return, otherwise the time window and the series
  that are drawn.
\<close>

definition update_plot :: "monitor \<Rightarrow> error + plot option" where
  "update_plot s =
     (if time_data s = [] \<or> temp_data s = [] then Inr None
      else
        (let max_points = min (log_max s) (int (length (time_data s)));
             time_array = slice_last max_points (time_data s)
         in case plot_devices s max_points time_array (ljsID s) of
              Inl e \<Rightarrow> Inl e
            | Inr series \<Rightarrow> Inr (Some (time_array, series))))"

subsection \<open>update_data\<close>

text \<open>
  What one acquisition cycle receives from outside: the outcome of \<open>self.ljs.read()\<close>,
  the value of \<open>datetime.now()\<close>, and the outcome of each \<open>self.log.log(key, temp)\<close>.
\<close>

record cycle =
  ljs_read :: "error + (key \<rightharpoonup> reading list)"
  now :: datetime
  log_log :: "key \<Rightarrow> real list \<Rightarrow> error option"

text \<open>
  \<open>np.hstack((a, np.array(col).reshape(-1, 1)))\<close>: one more column; numpy raises a
  \<open>ValueError\<close> when the column does not have one entry per row.
\<close>

definition hstack :: "real list list \<Rightarrow> real list \<Rightarrow> error + real list list" where
  "hstack rows col =
     (if length rows = length col
      then Inr (map (\<lambda>(row, c). row @ [c]) (zip rows col))
      else Inl ValueError)"

text \<open>The body of \<open>for key in self.ljsID\<close> (the label widgets are left out).\<close>

definition update_data_body ::
  "cycle \<Rightarrow> (key \<rightharpoonup> reading list) \<Rightarrow> key \<Rightarrow> monitor \<Rightarrow> error option \<times> monitor" where
  "update_data_body c voltages k s =
     (case getitem voltages k of Inl e \<Rightarrow> (Some e, s) | Inr vs \<Rightarrow>
     (case processVoltage s vs k of Inl e \<Rightarrow> (Some e, s) | Inr (temp, resistance) \<Rightarrow>
     (case getitem (map_of (temp_data s)) k of Inl e \<Rightarrow> (Some e, s) | Inr trows \<Rightarrow>
     (case hstack trows temp of Inl e \<Rightarrow> (Some e, s) | Inr trows' \<Rightarrow>
     (let s1 = s\<lparr>temp_data := AList.update k trows' (temp_data s)\<rparr> in
      case getitem (map_of (voltage_data s1)) k of Inl e \<Rightarrow> (Some e, s1) | Inr vrows \<Rightarrow>
     (case hstack vrows (map fst vs) of Inl e \<Rightarrow> (Some e, s1) | Inr vrows' \<Rightarrow>
     (let s2 = s1\<lparr>voltage_data := AList.update k vrows' (voltage_data s1)\<rparr> in
      case log_log c k temp of Some e \<Rightarrow> (Some e, s2) | None \<Rightarrow>
        check_alarms s2 temp k)))))))"

fun update_data_devices ::
  "cycle \<Rightarrow> (key \<rightharpoonup> reading list) \<Rightarrow> key list \<Rightarrow> monitor \<Rightarrow> error option \<times> monitor" where
  "update_data_devices c voltages [] s = (None, s)"
| "update_data_devices c voltages (k # ks) s =
     (case update_data_body c voltages k s of
        (Some e, s') \<Rightarrow> (Some e, s')
      | (None, s') \<Rightarrow> update_data_devices c voltages ks s')"

text \<open>The statements inside \<open>try\<close>.\<close>

definition update_data_try :: "cycle \<Rightarrow> monitor \<Rightarrow> error option \<times> monitor" where
  "update_data_try c s =
     (case ljs_read c of Inl e \<Rightarrow> (Some e, s) | Inr voltages \<Rightarrow>
     (let s1 = s\<lparr>time_data := time_data s @ [now c]\<rparr> in
      case update_data_devices c voltages (ljsID s1) s1 of
        (Some e, s2) \<Rightarrow> (Some e, s2)
      | (None, s2) \<Rightarrow>
          (case update_plot s2 of
             Inl e \<Rightarrow> (Some e, s2)
           | Inr None \<Rightarrow> (None, s2)
           | Inr (Some p) \<Rightarrow> (None, s2\<lparr>canvas := Some p\<rparr>))))"

text \<open>
  \<open>update_data\<close>: whatever the \<open>try\<close> block did, \<open>except Exception\<close> prints the error and
  the last statement arms the timer again.
\<close>

definition update_data :: "cycle \<Rightarrow> monitor \<Rightarrow> monitor" where
  "update_data c s =
     (let s' = snd (update_data_try c s) in s'\<lparr>after_calls := Suc (after_calls s')\<rparr>)"

subsection \<open>update_max_temps\<close>

text \<open>
  \<open>[float(entry.get()) for entry in entries]\<close>: \<open>float_of\<close> is Python's \<open>float\<close> on a
  string, \<open>None\<close> where it raises \<open>ValueError\<close>.
\<close>

fun parse_entries :: "(string \<Rightarrow> real option) \<Rightarrow> string list \<Rightarrow> error + real list" where
  "parse_entries float_of [] = Inr []"
| "parse_entries float_of (entry # rest) =
     (case float_of entry of
        None \<Rightarrow> Inl ValueError
      | Some x \<Rightarrow>
          (case parse_entries float_of rest of Inl e \<Rightarrow> Inl e | Inr xs \<Rightarrow> Inr (x # xs)))"

text \<open>
  \<open>self.config.set(section, 'max_temp_i', str(temp))\<close> for each threshold: configparser
  raises \<open>NoSectionError\<close> when the section does not exist.
\<close>

fun config_set_all :: "string \<Rightarrow> nat \<Rightarrow> real list \<Rightarrow> monitor \<Rightarrow> error option \<times> monitor" where
  "config_set_all section i [] s = (None, s)"
| "config_set_all section i (temp # rest) s =
     (case config s section of
        None \<Rightarrow> (Some NoSectionError, s)
      | Some opts \<Rightarrow>
          config_set_all section (Suc i) rest
            (s\<lparr>config := (config s)(section \<mapsto> opts(i \<mapsto> temp))\<rparr>))"

fun update_max_temps_loop ::
  "(string \<Rightarrow> real option) \<Rightarrow> (key \<times> string list) list \<Rightarrow> monitor \<Rightarrow> error option \<times> monitor" where
  "update_max_temps_loop float_of [] s = (None, s)"
| "update_max_temps_loop float_of ((k, entries) # rest) s =
     (case parse_entries float_of entries of
        Inl e \<Rightarrow>
          if e = ValueError then update_max_temps_loop float_of rest s else (Some e, s)
      | Inr mts \<Rightarrow>
          (case config_set_all (''alarm'' @ k) 0 mts (s\<lparr>max_temps := (max_temps s)(k \<mapsto> mts)\<rparr>) of
             (Some e, s') \<Rightarrow> (Some e, s')
           | (None, s') \<Rightarrow> update_max_temps_loop float_of rest s'))"

definition update_max_temps :: "(string \<Rightarrow> real option) \<Rightarrow> monitor \<Rightarrow> error option \<times> monitor" where
  "update_max_temps float_of s = update_max_temps_loop float_of (max_temp_entries s) s"

subsection \<open>getThermistorData\<close>

text \<open>
  \<open>csv\<close> is the outcome of \<open>pd.read_csv\<close> and of reading the two columns (the rows as
  pairs of resistance and temperature), \<open>interp1d\<close> is scipy's constructor; both columns
  are reversed before it is called. Any exception is printed and the method returns.
\<close>

definition getThermistorData ::
  "(error + (real \<times> real) list) \<Rightarrow>
   (real list \<Rightarrow> real list \<Rightarrow> error + (real \<Rightarrow> error + real)) \<Rightarrow> monitor \<Rightarrow> error option \<times> monitor" where
  "getThermistorData csv interp1d s =
     (case csv of
        Inl e \<Rightarrow> (None, s)
      | Inr df \<Rightarrow>
          (case interp1d (rev (map fst df)) (rev (map snd df)) of
             Inl e \<Rightarrow> (None, s)
           | Inr f \<Rightarrow> (None, s\<lparr>temp_interpolate_50k := Some f\<rparr>)))"

subsection \<open>The alarm latch over successive cycles\<close>

text \<open>
  \<open>check_alarms\<close> is called once per cycle with the temperatures of that cycle.
  \<open>alarm_history\<close> runs it over successive cycles and lists, cycle by cycle, the calls
  of \<open>send_alarm_email\<close> made in that cycle.
\<close>

definition new_alarm_emails :: "monitor \<Rightarrow> monitor \<Rightarrow> (key \<times> nat \<times> real) list" where
  "new_alarm_emails s s' = drop (length (alarm_emails s)) (alarm_emails s')"

fun alarm_history :: "key \<Rightarrow> real list list \<Rightarrow> monitor \<Rightarrow> (key \<times> nat \<times> real) list list" where
  "alarm_history k [] s = []"
| "alarm_history k (temp # later) s =
     (let s' = snd (check_alarms s temp k)
      in new_alarm_emails s s' # alarm_history k later s')"

text \<open>
  The specification's notion: position \<open>j\<close> starts a maximal contiguous run of
  temperatures above the threshold when the temperature at \<open>j\<close> exceeds it and the
  one before, if there is one, does not.
\<close>

definition run_start :: "real \<Rightarrow> real list \<Rightarrow> nat \<Rightarrow> bool" where
  "run_start threshold ts j \<longleftrightarrow>
     j < length ts \<and> ts ! j > threshold \<and> (j = 0 \<or> ts ! (j - 1) \<le> threshold)"

subsection \<open>What a cycle leaves alone\<close>

text \<open>
  The fields that no statement of \<open>update_data\<close>, \<open>check_alarms\<close> or \<open>update_plot\<close>
  assigns before the timer is armed again.
\<close>

definition same_setup :: "monitor \<Rightarrow> monitor \<Rightarrow> bool" where
  "same_setup s s' \<longleftrightarrow>
     ljsID s' = ljsID s \<and> vin s' = vin s \<and> read_channels s' = read_channels s \<and>
     labels s' = labels s \<and> max_temps s' = max_temps s \<and> resistances s' = resistances s \<and>
     plot_channel s' = plot_channel s \<and> log_max s' = log_max s \<and>
     temp_interpolate_50k s' = temp_interpolate_50k s \<and>
     max_temp_entries s' = max_temp_entries s \<and> config s' = config s \<and>
     after_calls s' = after_calls s"

subsection \<open>A concrete monitor\<close>

text \<open>
  A calibration curve through (5 k\<Omega>, 40 \<degree>C), (10 k\<Omega>, 25 \<degree>C) and (20 k\<Omega>, 10 \<degree>C),
  linear in between, that rejects a resistance outside its range.
\<close>

definition example_curve :: "real \<Rightarrow> error + real" where
  "example_curve r =
     (if r < 5000 \<or> 20000 < r then Inl ValueError
      else if r \<le> 10000 then Inr (40 - (r - 5000) * 3 / 1000)
      else Inr (25 - (r - 10000) * 3 / 2000))"

text \<open>
  One device \<open>lj1\<close> with two channels, 10 k\<Omega> reference resistors, thresholds of 50 \<degree>C,
  as \<open>__init__\<close> leaves it before the first cycle.
\<close>

definition example_monitor :: monitor where
  "example_monitor =
     \<lparr>ljsID = [''lj1''],
      vin = [''lj1'' \<mapsto> 2.5],
      read_channels = [''lj1'' \<mapsto> [0, 1]],
      labels = [''lj1'' \<mapsto> [''A'', ''B'']],
      max_temps = [''lj1'' \<mapsto> [50, 50]],
      resistances = [''lj1'' \<mapsto> [10000, 10000]],
      plot_channel = [''lj1'' \<mapsto> [True, True]],
      log_max = 3,
      temp_interpolate_50k = Some example_curve,
      alarm_triggered = [''lj1'' \<mapsto> [False, False]],
      time_data = [],
      temp_data = [(''lj1'', [[], []])],
      voltage_data = [(''lj1'', [[], []])],
      max_temp_entries = [(''lj1'', [''50.0'', ''50.0''])],
      config = [''alarmlj1'' \<mapsto> Map.empty],
      alarm_emails = [],
      canvas = None,
      after_calls = 0\<rparr>"

text \<open>The same monitor when the configuration file sets \<open>VIN\<close> to 5 V for the device.\<close>

definition example_monitor_5V :: monitor where
  "example_monitor_5V = example_monitor\<lparr>vin := [''lj1'' \<mapsto> 5]\<rparr>"

text \<open>
  A cycle in which the first channel reads 2500 mV and the second 1250 mV, and the
  logger succeeds.
\<close>

definition example_cycle :: cycle where
  "example_cycle =
     \<lparr>ljs_read = Inr [''lj1'' \<mapsto> [(2500, 0), (1250, 1)]],
      now = Datetime 2024 7 1 12 0 0,
      log_log = (\<lambda>k temp. None)\<rparr>"

text \<open>The monitor before \<open>getThermistorData\<close> has run: \<open>__init__\<close> sets the interpolator to \<open>None\<close>.\<close>

definition example_unloaded :: monitor where
  "example_unloaded = example_monitor\<lparr>temp_interpolate_50k := None\<rparr>"

text \<open>
  Two cycles one second apart in which both channels convert: 1250 mV is 25 \<degree>C and
  1500 mV is 17.5 \<degree>C on the curve above.
\<close>

definition example_cycle_1 :: cycle where
  "example_cycle_1 =
     \<lparr>ljs_read = Inr [''lj1'' \<mapsto> [(1250, 0), (1500, 1)]],
      now = Datetime 2024 7 1 12 0 0,
      log_log = (\<lambda>k temp. None)\<rparr>"

definition example_cycle_2 :: cycle where
  "example_cycle_2 =
     \<lparr>ljs_read = Inr [''lj1'' \<mapsto> [(1500, 0), (1250, 1)]],
      now = Datetime 2024 7 1 12 0 1,
      log_log = (\<lambda>k temp. None)\<rparr>"

text \<open>
  The monitor that \<open>update_data\<close> leaves after these two cycles, when the configuration
  file sets \<open>LOG_MAX\<close> to 0.
\<close>

definition example_log_max_0 :: monitor where
  "example_log_max_0 =
     update_data example_cycle_2 (update_data example_cycle_1 (example_monitor\<lparr>log_max := 0\<rparr>))"

text \<open>
  Two devices and the text of their threshold entries; the second entry of \<open>lj1\<close> is not
  a number. \<open>example_float\<close> is Python's \<open>float\<close> on the three strings used.
\<close>

definition example_float :: "string \<Rightarrow> real option" where
  "example_float t =
     (if t = ''50.0'' then Some 50 else if t = ''60.5'' then Some 60.5 else None)"

definition example_two_devices :: monitor where
  "example_two_devices =
     example_monitor\<lparr>ljsID := [''lj1'', ''lj2''],
       max_temps := [''lj1'' \<mapsto> [50, 50], ''lj2'' \<mapsto> [50]],
       max_temp_entries := [(''lj1'', [''50.0'', ''abc'']), (''lj2'', [''60.5''])],
       config := [''alarmlj1'' \<mapsto> Map.empty, ''alarmlj2'' \<mapsto> Map.empty]\<rparr>"

text \<open>An \<open>interp1d\<close> that rejects empty or unequal columns and otherwise gives the curve above.\<close>

definition example_interp1d :: "real list \<Rightarrow> real list \<Rightarrow> error + (real \<Rightarrow> error + real)" where
  "example_interp1d xs ys =
     (if xs = [] \<or> length xs \<noteq> length ys then Inl ValueError else Inr example_curve)"

section \<open>Properties\<close>

subsection \<open>Evaluation of the concrete monitor\<close>

lemmas example_simps =
  example_monitor_def example_curve_def processVoltage_def processVoltage_body_def
  getitem_def nth_item_def truediv_def

subsection \<open>processVoltage: the result lists\<close>

text \<open>
  The loop of \<open>processVoltage\<close> returns exactly when the body succeeds on every reading,
  and then the two lists hold the results of the body in the order of the readings.
\<close>

lemma processVoltage_loop_Inr:
  "processVoltage_loop s k vs t0 r0 = Inr (temp, res) \<longleftrightarrow>
     (\<exists>ps. map (processVoltage_body s k) vs = map Inr ps \<and>
           temp = t0 @ map fst ps \<and> res = r0 @ map snd ps)"
proof (induction vs arbitrary: t0 r0)
  case Nil
  then show ?case by auto
next
  case (Cons mV rest)
  show ?case
  proof (cases "processVoltage_body s k mV")
    case (Inl e)
    then show ?thesis by (auto simp: map_eq_Cons_conv)
  next
    case (Inr p)
    obtain t r where p: "p = (t, r)" by (cases p)
    have step: "processVoltage_loop s k (mV # rest) t0 r0 =
                processVoltage_loop s k rest (t0 @ [t]) (r0 @ [r])"
      by (simp add: Inr p)
    show ?thesis
    proof
      assume "processVoltage_loop s k (mV # rest) t0 r0 = Inr (temp, res)"
      then obtain ps where "map (processVoltage_body s k) rest = map Inr ps"
        "temp = (t0 @ [t]) @ map fst ps" "res = (r0 @ [r]) @ map snd ps"
        unfolding step Cons.IH by blast
      then have "map (processVoltage_body s k) (mV # rest) = map Inr ((t, r) # ps) \<and>
                 temp = t0 @ map fst ((t, r) # ps) \<and> res = r0 @ map snd ((t, r) # ps)"
        by (simp add: Inr p)
      then show "\<exists>ps. map (processVoltage_body s k) (mV # rest) = map Inr ps \<and>
                 temp = t0 @ map fst ps \<and> res = r0 @ map snd ps"
        by blast
    next
      assume "\<exists>ps. map (processVoltage_body s k) (mV # rest) = map Inr ps \<and>
                 temp = t0 @ map fst ps \<and> res = r0 @ map snd ps"
      then obtain ps where ps: "map (processVoltage_body s k) (mV # rest) = map Inr ps"
        and t: "temp = t0 @ map fst ps" and r: "res = r0 @ map snd ps"
        by blast
      from ps obtain q qs where q: "ps = q # qs" "processVoltage_body s k mV = Inr q"
        "map (processVoltage_body s k) rest = map Inr qs"
        by (cases ps) auto
      with Inr p have "q = (t, r)" by simp
      with q t r have "\<exists>ps. map (processVoltage_body s k) rest = map Inr ps \<and>
          temp = (t0 @ [t]) @ map fst ps \<and> res = (r0 @ [r]) @ map snd ps"
        by auto
      then show "processVoltage_loop s k (mV # rest) t0 r0 = Inr (temp, res)"
        unfolding step Cons.IH .
    qed
  qed
qed

lemma processVoltage_loop_fails:
  "mV \<in> set vs \<Longrightarrow> processVoltage_body s k mV = Inl e \<Longrightarrow>
   \<exists>e'. processVoltage_loop s k vs t0 r0 = Inl e'"
  by (induction vs arbitrary: t0 r0) (auto split: sum.splits)

text \<open>
  Claim C9. When \<open>processVoltage\<close> returns, the list of temperatures and the list of
  resistances both have the length of the list of readings, and their \<open>i\<close>-th entries
  are the temperature and the resistance that the loop body computes from the \<open>i\<close>-th
  reading: the order of the readings is kept.
\<close>

theorem processVoltage_lengths_and_order:
  assumes "processVoltage s voltages k = Inr (temp, resistance)"
  shows "length temp = length voltages \<and> length resistance = length voltages \<and>
         (\<forall>i < length voltages.
            processVoltage_body s k (voltages ! i) = Inr (temp ! i, resistance ! i))"
proof -
  from assms obtain ps where ps: "map (processVoltage_body s k) voltages = map Inr ps"
    and t: "temp = map fst ps" and r: "resistance = map snd ps"
    unfolding processVoltage_def processVoltage_loop_Inr by auto
  from ps have len: "length ps = length voltages"
    by (metis length_map)
  have "processVoltage_body s k (voltages ! i) = Inr (temp ! i, resistance ! i)"
    if "i < length voltages" for i
  proof -
    have "map (processVoltage_body s k) voltages ! i = map Inr ps ! i"
      by (simp add: ps)
    with that len show ?thesis by (simp add: t r)
  qed
  with len show ?thesis by (simp add: t r)
qed


theorem processVoltage_lengths_and_order_witness:
  "processVoltage example_monitor [(1250, 0), (1500, 1)] ''lj1'' = Inr ([25, 17.5], [10000, 15000]) \<and>
   length [25, 17.5 :: real] = length [(1250 :: real, 0 :: nat), (1500, 1)] \<and>
   length [10000, 15000 :: real] = length [(1250 :: real, 0 :: nat), (1500, 1)] \<and>
   processVoltage_body example_monitor ''lj1'' (1250, 0) = Inr (25, 10000) \<and>
   processVoltage_body example_monitor ''lj1'' (1500, 1) = Inr (17.5, 15000)"
proof -
  have h: "processVoltage example_monitor [(1250, 0), (1500, 1)] ''lj1''
             = Inr ([25, 17.5], [10000, 15000])"
    by (simp add: example_simps)
  from processVoltage_lengths_and_order [OF h]
  have a: "\<And>i. i < length [(1250 :: real, 0 :: nat), (1500, 1)] \<Longrightarrow>
        processVoltage_body example_monitor ''lj1'' ([(1250, 0), (1500, 1)] ! i)
          = Inr ([25, 17.5] ! i, [10000, 15000] ! i)"
    by blast
  from a [of 0] a [of 1]
  have "processVoltage_body example_monitor ''lj1'' (1250, 0) = Inr (25, 10000)"
    and "processVoltage_body example_monitor ''lj1'' (1500, 1) = Inr (17.5, 15000)"
    by simp_all
  with h show ?thesis by simp
qed

subsection \<open>processVoltage: the voltage divider\<close>

text \<open>
  Claim C7 (scenario A), as stated, fails in the value returned. With an excitation
  voltage of 2.5 V, a reference resistance of 10 k\<Omega>, a raw reading of 1250 mV and a
  calibration that maps 10000 \<Omega> to 25.0 \<degree>C, \<open>processVoltage\<close> ends in
  \<open>return temp, resistance\<close>: it returns the list of temperatures and then the list of
  resistances, \<open>([25.0], [10000.0])\<close>, and not the resistance followed by the
  temperature.
\<close>

theorem scenario_A_counterexample:
  "vin example_monitor ''lj1'' = Some 2.5 \<and>
   resistances example_monitor ''lj1'' = Some [10000, 10000] \<and>
   example_curve 10000 = Inr 25 \<and>
   processVoltage example_monitor [(1250, 0)] ''lj1'' = Inr ([25], [10000]) \<and>
   processVoltage example_monitor [(1250, 0)] ''lj1'' \<noteq> Inr ([10000], [25])"
  by (simp add: example_simps)

text \<open>
  Claim C7, amended. On a device whose excitation voltage \<open>V\<close> is 2.5 V, for a reading
  \<open>mV\<close> of a configured channel with reference resistance \<open>rref\<close>, \<open>processVoltage\<close>
  divides with the voltage \<open>mV / 1000\<close> and returns the resistance
  \<open>rref * (mV / 1000) / (V - mV / 1000)\<close> together with the temperature that the
  calibration gives for that resistance, as two one-element lists, temperatures first.
  In scenario A (1250 mV, 10 k\<Omega>) the voltage is 1.25 V and the resistance 10000 \<Omega>,
  and with a calibration that maps 10000 \<Omega> to 25.0 \<degree>C the value returned is
  \<open>([25.0], [10000.0])\<close>.
\<close>

theorem scenario_A:
  assumes "vin s k = Some V" and "V = 2.5"
    and "resistances s k = Some rs" and "read_channels s k = Some chans"
    and "index_of chans a = Inr n" and "n < length rs" and "rs ! n = rref"
    and "temp_interpolate_50k s = Some f"
    and "mV / 1000 \<noteq> V"
    and "f (rref * (mV / 1000) / (V - mV / 1000)) = Inr t"
  shows "processVoltage s [(mV, a)] k = Inr ([t], [rref * (mV / 1000) / (V - mV / 1000)]) \<and>
         (mV = 1250 \<and> rref = 10000 \<longrightarrow>
            mV / 1000 = 1.25 \<and> rref * (mV / 1000) / (V - mV / 1000) = 10000 \<and>
            (f 10000 = Inr 25 \<longrightarrow> processVoltage s [(1250, a)] k = Inr ([25], [10000])))"
proof -
  have g: "processVoltage s [(mV, a)] k = Inr ([t], [rref * (mV / 1000) / (V - mV / 1000)])"
    using assms(3-10) unfolding assms(2)
    by (simp add: processVoltage_def processVoltage_body_def getitem_def nth_item_def truediv_def)
  have "mV / 1000 = 1.25 \<and> rref * (mV / 1000) / (V - mV / 1000) = 10000 \<and>
        (f 10000 = Inr 25 \<longrightarrow> processVoltage s [(1250, a)] k = Inr ([25], [10000]))"
    if m: "mV = 1250" and r: "rref = 10000"
  proof -
    from m have v: "mV / 1000 = 1.25" by simp
    have q: "rref * (mV / 1000) / (V - mV / 1000) = 10000"
      unfolding assms(2) m r by simp
    have "processVoltage s [(1250, a)] k = Inr ([25], [10000])" if c: "f 10000 = Inr 25"
    proof -
      from assms(10) q c have "t = 25" by simp
      with g q m show ?thesis by simp
    qed
    with v q show ?thesis by blast
  qed
  with g show ?thesis by blast
qed

theorem scenario_A_witness:
  "processVoltage example_monitor [(1250, 0)] ''lj1'' = Inr ([25], [10000]) \<and>
   (1250 :: real) / 1000 = 1.25 \<and>
   (10000 :: real) * (1250 / 1000) / (2.5 - 1250 / 1000) = 10000"
proof -
  have h: "vin example_monitor ''lj1'' = Some 2.5" "(2.5 :: real) = 2.5"
    "resistances example_monitor ''lj1'' = Some [10000, 10000]"
    "read_channels example_monitor ''lj1'' = Some [0, 1]"
    "index_of [0, 1 :: nat] 0 = Inr 0" "0 < length [10000, 10000 :: real]"
    "[10000, 10000 :: real] ! 0 = 10000"
    "temp_interpolate_50k example_monitor = Some example_curve"
    "(1250 :: real) / 1000 \<noteq> 2.5"
    "example_curve (10000 * (1250 / 1000) / (2.5 - 1250 / 1000)) = Inr 25"
    by (simp_all add: example_monitor_def example_curve_def)
  have "processVoltage example_monitor [(1250, 0)] ''lj1''
          = Inr ([25], [10000 * (1250 / 1000) / (2.5 - 1250 / 1000)]) \<and>
        ((1250 :: real) = 1250 \<and> (10000 :: real) = 10000 \<longrightarrow>
            (1250 :: real) / 1000 = 1.25 \<and>
            (10000 :: real) * (1250 / 1000) / (2.5 - 1250 / 1000) = 10000 \<and>
            (example_curve 10000 = Inr 25 \<longrightarrow>
               processVoltage example_monitor [(1250, 0)] ''lj1'' = Inr ([25], [10000])))"
    using h
    by (rule scenario_A [where s = example_monitor and k = "''lj1''" and V = "2.5"
        and rs = "[10000, 10000]" and chans = "[0, 1]" and a = 0 and n = 0 and rref = 10000
        and f = example_curve and mV = 1250 and t = 25])
  then show ?thesis by simp
qed

text \<open>
  Claim C4. The claim asks for the device's configured excitation voltage in the
  divider formula. \<open>processVoltage\<close> uses the constant 2.5 instead: on a device
  configured with \<open>VIN = 5\<close>, a reading of 1000 mV gives 20000/3 \<Omega> where the formula
  with the device's voltage gives 10000 * 1 / (5 - 1) = 2500 \<Omega>, and a reading of
  2500 mV, which is below the device's voltage, raises \<open>ZeroDivisionError\<close>.
\<close>

theorem processVoltage_ignores_device_vin:
  "vin example_monitor_5V ''lj1'' = Some 5 \<and>
   (0 :: real) \<le> 1000 / 1000 \<and> (1000 :: real) / 1000 < 5 \<and>
   processVoltage example_monitor_5V [(1000, 0)] ''lj1'' = Inr ([35], [20000 / 3]) \<and>
   (20000 / 3 :: real) \<noteq> 10000 * (1000 / 1000) / (5 - 1000 / 1000) \<and>
   (0 :: real) \<le> 2500 / 1000 \<and> (2500 :: real) / 1000 < 5 \<and>
   processVoltage example_monitor_5V [(2500, 0)] ''lj1'' = Inl ZeroDivisionError"
  by (simp add: example_monitor_5V_def example_simps)

text \<open>
  Claim C1, as stated, fails: there is no range check and no out-of-range error in
  \<open>processVoltage\<close>. On a device whose excitation voltage is 2.5 V, a reading of
  2500 mV reaches the division and the call ends in the \<open>ZeroDivisionError\<close> that the
  claim excludes.
\<close>

theorem processVoltage_at_vin_counterexample:
  "vin example_monitor ''lj1'' = Some 2.5 \<and> (2500 :: real) / 1000 \<ge> 2.5 \<and>
   processVoltage example_monitor [(2500, 0)] ''lj1'' = Inl ZeroDivisionError"
  by (simp add: example_simps)

text \<open>
  Claim C1, amended. For a device whose excitation voltage is 2.5 V and a reading of a
  configured channel whose voltage is at or above it, \<open>processVoltage\<close> makes no range
  check: a voltage equal to the excitation voltage ends in \<open>ZeroDivisionError\<close>; a
  voltage above it gives the resistance \<open>r1 * v / (2.5 - v)\<close>, which is not positive for
  a reference resistance \<open>r1 \<ge> 0\<close>, and that value is handed to the interpolator, whose
  answer alone decides whether the call fails.
\<close>

theorem processVoltage_no_range_check:
  assumes "vin s k = Some 2.5"
    and "resistances s k = Some rs" and "read_channels s k = Some chans"
    and "index_of chans a = Inr n" and "n < length rs"
    and "temp_interpolate_50k s = Some f"
    and "mV / 1000 \<ge> 2.5"
  shows "processVoltage s [(mV, a)] k =
           (if mV / 1000 = 2.5 then Inl ZeroDivisionError
            else (case f (rs ! n * (mV / 1000) / (2.5 - mV / 1000)) of
                    Inl e \<Rightarrow> Inl e
                  | Inr t \<Rightarrow> Inr ([t], [rs ! n * (mV / 1000) / (2.5 - mV / 1000)]))) \<and>
         (0 \<le> rs ! n \<and> mV / 1000 \<noteq> 2.5 \<longrightarrow> rs ! n * (mV / 1000) / (2.5 - mV / 1000) \<le> 0)"
proof -
  have "rs ! n * (mV / 1000) / (2.5 - mV / 1000) \<le> 0" if "0 \<le> rs ! n" "mV / 1000 \<noteq> 2.5"
  proof -
    from that assms(7) have "2.5 - mV / 1000 < 0" "0 \<le> rs ! n * (mV / 1000)"
      by simp_all
    then show ?thesis
      by (simp add: divide_nonneg_neg)
  qed
  moreover have "processVoltage s [(mV, a)] k =
           (if mV / 1000 = 2.5 then Inl ZeroDivisionError
            else (case f (rs ! n * (mV / 1000) / (2.5 - mV / 1000)) of
                    Inl e \<Rightarrow> Inl e
                  | Inr t \<Rightarrow> Inr ([t], [rs ! n * (mV / 1000) / (2.5 - mV / 1000)])))"
    using assms
    by (simp add: processVoltage_def processVoltage_body_def getitem_def nth_item_def
        truediv_def split: sum.splits)
  ultimately show ?thesis by blast
qed

theorem processVoltage_no_range_check_witness:
  "processVoltage example_monitor [(3000, 1)] ''lj1'' = Inl ValueError \<and>
   (10000 :: real) * (3000 / 1000) / (2.5 - 3000 / 1000) \<le> 0"
  using processVoltage_no_range_check [where s = example_monitor and k = "''lj1''"
      and rs = "[10000, 10000]" and chans = "[0, 1]" and a = 1 and n = 1
      and f = example_curve and mV = 3000]
  by (simp add: example_monitor_def example_curve_def)

subsection \<open>The acquisition cycle\<close>

text \<open>
  Nothing in a cycle assigns the fields of \<open>same_setup\<close>; \<open>check_alarms\<close> leaves the
  recorded data alone, and the conversion reads only fields of \<open>same_setup\<close>.
\<close>

lemma same_setup_refl: "same_setup s s"
  by (simp add: same_setup_def)

lemma same_setup_trans: "same_setup s s' \<Longrightarrow> same_setup s' s'' \<Longrightarrow> same_setup s s''"
  by (simp add: same_setup_def)

lemma check_alarms_body_setup: "same_setup s (snd (check_alarms_body k i t s))"
  by (simp add: check_alarms_body_def set_alarm_triggered_def send_alarm_email_def
      same_setup_def split: sum.split option.split)

lemma check_alarms_body_data:
  "temp_data (snd (check_alarms_body k i t s)) = temp_data s \<and>
   voltage_data (snd (check_alarms_body k i t s)) = voltage_data s \<and>
   time_data (snd (check_alarms_body k i t s)) = time_data s"
  by (simp add: check_alarms_body_def set_alarm_triggered_def send_alarm_email_def
      split: sum.split option.split)

lemma check_alarms_loop_setup: "same_setup s (snd (check_alarms_loop k i temps s))"
proof (induction temps arbitrary: i s)
  case Nil
  show ?case by (simp add: same_setup_refl)
next
  case (Cons t rest)
  obtain r s' where b: "check_alarms_body k i t s = (r, s')"
    by (cases "check_alarms_body k i t s")
  with check_alarms_body_setup [of s k i t] have s': "same_setup s s'" by simp
  show ?case
  proof (cases r)
    case None
    with b have "snd (check_alarms_loop k i (t # rest) s) = snd (check_alarms_loop k (Suc i) rest s')"
      by simp
    with Cons.IH [of s' "Suc i"] s' show ?thesis
      by (simp add: same_setup_trans)
  next
    case (Some e)
    with b s' show ?thesis by simp
  qed
qed

lemma check_alarms_loop_data:
  "temp_data (snd (check_alarms_loop k i temps s)) = temp_data s \<and>
   voltage_data (snd (check_alarms_loop k i temps s)) = voltage_data s \<and>
   time_data (snd (check_alarms_loop k i temps s)) = time_data s"
proof (induction temps arbitrary: i s)
  case Nil
  show ?case by simp
next
  case (Cons t rest)
  obtain r s' where b: "check_alarms_body k i t s = (r, s')"
    by (cases "check_alarms_body k i t s")
  with check_alarms_body_data [of k i t s]
  have s': "temp_data s' = temp_data s" "voltage_data s' = voltage_data s" "time_data s' = time_data s"
    by simp_all
  show ?case
  proof (cases r)
    case None
    with b have "snd (check_alarms_loop k i (t # rest) s) = snd (check_alarms_loop k (Suc i) rest s')"
      by simp
    with Cons.IH [of "Suc i" s'] s' show ?thesis by simp
  next
    case (Some e)
    with b s' show ?thesis by simp
  qed
qed

lemma processVoltage_same_setup:
  "same_setup s s' \<Longrightarrow> processVoltage s' vs k = processVoltage s vs k"
proof -
  assume a: "same_setup s s'"
  then have "processVoltage_body s' k mV = processVoltage_body s k mV" for mV
    by (simp add: same_setup_def processVoltage_body_def Let_def cong: sum.case_cong)
  then have "processVoltage_loop s' k vs t r = processVoltage_loop s k vs t r" for t r
    by (induction vs arbitrary: t r) (simp_all split: sum.split)
  then show ?thesis by (simp add: processVoltage_def)
qed

lemma update_data_body_setup: "same_setup s (snd (update_data_body c voltages k s))"
proof -
  have a: "same_setup s (snd (check_alarms s2 temp k))" if "same_setup s s2" for s2 temp
    using that check_alarms_loop_setup [of s2 k 0 temp]
    by (simp add: check_alarms_def same_setup_trans)
  show ?thesis
    unfolding update_data_body_def Let_def
    by (auto split: sum.split option.split intro!: a simp: same_setup_refl)
       (simp_all add: same_setup_def)
qed

lemma update_data_body_data:
  "time_data (snd (update_data_body c voltages k' s)) = time_data s \<and>
   (k' \<noteq> k \<longrightarrow>
      map_of (temp_data (snd (update_data_body c voltages k' s))) k = map_of (temp_data s) k \<and>
      map_of (voltage_data (snd (update_data_body c voltages k' s))) k = map_of (voltage_data s) k)"
proof -
  have a: "time_data (snd (check_alarms s2 temp k')) = time_data s2 \<and>
           temp_data (snd (check_alarms s2 temp k')) = temp_data s2 \<and>
           voltage_data (snd (check_alarms s2 temp k')) = voltage_data s2" for s2 temp
    using check_alarms_loop_data [of k' 0 temp s2] by (simp add: check_alarms_def)
  show ?thesis
    unfolding update_data_body_def Let_def
    by (auto split: sum.split option.split simp: a update_conv')
qed

lemma update_data_body_fails:
  "voltages k = Some vs \<Longrightarrow> processVoltage s vs k = Inl e \<Longrightarrow>
   update_data_body c voltages k s = (Some e, s)"
  by (simp add: update_data_body_def getitem_def)

lemma update_data_devices_setup: "same_setup s (snd (update_data_devices c voltages ks s))"
proof (induction ks arbitrary: s)
  case Nil
  show ?case by (simp add: same_setup_refl)
next
  case (Cons k' ks)
  obtain r s' where b: "update_data_body c voltages k' s = (r, s')"
    by (cases "update_data_body c voltages k' s")
  with update_data_body_setup [of s c voltages k'] have s': "same_setup s s'" by simp
  show ?case
  proof (cases r)
    case None
    with b s' Cons.IH [of s'] show ?thesis by (simp add: same_setup_trans)
  next
    case (Some e)
    with b s' show ?thesis by simp
  qed
qed

lemma update_data_devices_failed_key:
  assumes "voltages k = Some vs" and "processVoltage s vs k = Inl e"
  shows "time_data (snd (update_data_devices c voltages ks s)) = time_data s \<and>
         map_of (temp_data (snd (update_data_devices c voltages ks s))) k = map_of (temp_data s) k \<and>
         map_of (voltage_data (snd (update_data_devices c voltages ks s))) k = map_of (voltage_data s) k"
  using assms(2)
proof (induction ks arbitrary: s)
  case Nil
  show ?case by simp
next
  case (Cons k' ks)
  show ?case
  proof (cases "k' = k")
    case True
    with Cons.prems assms(1) show ?thesis
      by (simp add: update_data_body_fails)
  next
    case False
    obtain r s' where b: "update_data_body c voltages k' s = (r, s')"
      by (cases "update_data_body c voltages k' s")
    with update_data_body_setup [of s c voltages k'] have "same_setup s s'" by simp
    with Cons.prems have f: "processVoltage s' vs k = Inl e"
      by (simp add: processVoltage_same_setup)
    from b False update_data_body_data [of c voltages k' s k]
    have d: "time_data s' = time_data s" "map_of (temp_data s') k = map_of (temp_data s) k"
      "map_of (voltage_data s') k = map_of (voltage_data s) k"
      by simp_all
    show ?thesis
    proof (cases r)
      case None
      with b d Cons.IH [OF f] show ?thesis by simp
    next
      case (Some e')
      with b d show ?thesis by simp
    qed
  qed
qed

lemma update_data_try_setup: "same_setup s (snd (update_data_try c s))"
proof (cases "ljs_read c")
  case (Inl e)
  then show ?thesis by (simp add: update_data_try_def same_setup_refl)
next
  case (Inr voltages)
  define s1 where "s1 = s\<lparr>time_data := time_data s @ [now c]\<rparr>"
  obtain r s2 where d: "update_data_devices c voltages (ljsID s1) s1 = (r, s2)"
    by (cases "update_data_devices c voltages (ljsID s1) s1")
  have "same_setup s s1" by (simp add: s1_def same_setup_def)
  moreover from d update_data_devices_setup [of s1 c voltages "ljsID s1"]
  have "same_setup s1 s2" by simp
  ultimately have s2: "same_setup s s2" by (rule same_setup_trans)
  then have "same_setup s (s2\<lparr>canvas := p\<rparr>)" for p
    by (simp add: same_setup_def)
  with s2 Inr d show ?thesis
    unfolding update_data_try_def Let_def s1_def [symmetric]
    by (simp split: option.split sum.split)
qed

text \<open>
  Claim C8. \<open>update_data\<close> runs the whole cycle inside \<open>try\<close> and catches every
  \<open>Exception\<close>: whatever \<open>self.ljs.read()\<close>, the conversion, the logger, the alarm check
  or the plot raise, the statement after the handler arms the timer for the next cycle.
\<close>

theorem update_data_always_rearms_timer:
  "after_calls (update_data c s) = Suc (after_calls s)"
  using update_data_try_setup [of s c]
  by (simp add: update_data_def same_setup_def)

text \<open>
  Claim C3, as stated, fails. In a cycle where the first channel reads 2500 mV and the
  second 1250 mV, the second reading alone converts to (25 \<degree>C, 10000 \<Omega>), but
  \<open>processVoltage\<close> raises at the first reading and returns nothing: no column is
  appended to the device's \<open>temp_data\<close>, although the time of the cycle is recorded.
\<close>

theorem failed_conversion_counterexample:
  "processVoltage_body example_monitor ''lj1'' (1250, 1) = Inr (25, 10000) \<and>
   processVoltage example_monitor [(2500, 0), (1250, 1)] ''lj1'' = Inl ZeroDivisionError \<and>
   temp_data (update_data example_cycle example_monitor) = [(''lj1'', [[], []])] \<and>
   time_data (update_data example_cycle example_monitor) = [Datetime 2024 7 1 12 0 0]"
  by (simp add: example_simps example_cycle_def update_data_def update_data_try_def
      update_data_body_def)

text \<open>
  Claim C3, amended. When the conversion of one reading of a device fails,
  \<open>processVoltage\<close> fails for the whole device and returns no sample for any of its
  channels; \<open>update_data\<close> catches the exception, so in this cycle nothing is appended
  to the device's \<open>temp_data\<close> and \<open>voltage_data\<close> (no sentinel value is stored), while
  the time of the cycle has already been appended to \<open>time_data\<close>.
\<close>

theorem failed_conversion_drops_device_samples:
  assumes "mV \<in> set voltages" and "processVoltage_body s k mV = Inl e"
  shows "(\<exists>e'. processVoltage s voltages k = Inl e') \<and>
         (ljs_read c = Inr vs \<and> vs k = Some voltages \<longrightarrow>
            map_of (temp_data (update_data c s)) k = map_of (temp_data s) k \<and>
            map_of (voltage_data (update_data c s)) k = map_of (voltage_data s) k \<and>
            time_data (update_data c s) = time_data s @ [now c])"
proof -
  from assms obtain e' where f: "processVoltage s voltages k = Inl e'"
    unfolding processVoltage_def using processVoltage_loop_fails by blast
  have "map_of (temp_data (update_data c s)) k = map_of (temp_data s) k \<and>
        map_of (voltage_data (update_data c s)) k = map_of (voltage_data s) k \<and>
        time_data (update_data c s) = time_data s @ [now c]"
    if r: "ljs_read c = Inr vs" and v: "vs k = Some voltages"
  proof -
    define s1 where "s1 = s\<lparr>time_data := time_data s @ [now c]\<rparr>"
    have "same_setup s s1" by (simp add: s1_def same_setup_def)
    with f have f1: "processVoltage s1 voltages k = Inl e'"
      by (simp add: processVoltage_same_setup)
    obtain r' s2 where d: "update_data_devices c vs (ljsID s1) s1 = (r', s2)"
      by (cases "update_data_devices c vs (ljsID s1) s1")
    with update_data_devices_failed_key [where voltages = vs and k = k and vs = voltages
        and s = s1 and e = e' and c = c and ks = "ljsID s1"] v f1
    have k: "time_data s2 = time_data s1" "map_of (temp_data s2) k = map_of (temp_data s1) k"
      "map_of (voltage_data s2) k = map_of (voltage_data s1) k"
      by simp_all
    have "time_data (snd (update_data_try c s)) = time_data s2 \<and>
          temp_data (snd (update_data_try c s)) = temp_data s2 \<and>
          voltage_data (snd (update_data_try c s)) = voltage_data s2"
      using r d unfolding update_data_try_def Let_def s1_def [symmetric]
      by (simp split: option.split sum.split)
    with k show ?thesis
      by (simp add: update_data_def s1_def Let_def)
  qed
  with f show ?thesis by blast
qed

theorem failed_conversion_drops_device_samples_witness:
  "(\<exists>e'. processVoltage example_monitor [(2500, 0), (1250, 1)] ''lj1'' = Inl e') \<and>
   map_of (temp_data (update_data example_cycle example_monitor)) ''lj1''
     = map_of (temp_data example_monitor) ''lj1'' \<and>
   map_of (voltage_data (update_data example_cycle example_monitor)) ''lj1''
     = map_of (voltage_data example_monitor) ''lj1'' \<and>
   time_data (update_data example_cycle example_monitor)
     = time_data example_monitor @ [now example_cycle]"
proof -
  have a: "(2500, 0) \<in> set [(2500 :: real, 0 :: nat), (1250, 1)]" by simp
  have b: "processVoltage_body example_monitor ''lj1'' (2500, 0) = Inl ZeroDivisionError"
    by (simp add: example_simps)
  have c: "ljs_read example_cycle = Inr [''lj1'' \<mapsto> [(2500, 0), (1250, 1)]] \<and>
           [''lj1'' \<mapsto> [(2500 :: real, 0 :: nat), (1250, 1)]] ''lj1'' = Some [(2500, 0), (1250, 1)]"
    by (simp add: example_cycle_def)
  from failed_conversion_drops_device_samples [OF a b, of example_cycle
      "[''lj1'' \<mapsto> [(2500, 0), (1250, 1)]]"] c
  show ?thesis by blast
qed

subsection \<open>The alarm latch\<close>

text \<open>
  One call of \<open>check_alarms\<close> on a device whose threshold and latch lists have one entry
  per temperature: it does not raise, the latch of each channel becomes "temperature
  above threshold", and a call of \<open>send_alarm_email\<close> is made for exactly the channels
  that are above their threshold with the latch not yet set.
\<close>

lemma check_alarms_body_step:
  assumes "max_temps s k = Some mts" and "alarm_triggered s k = Some trig"
    and "i < length mts" and "i < length trig"
  shows "\<exists>s'. check_alarms_body k i t s = (None, s') \<and> max_temps s' = max_temps s \<and>
           alarm_triggered s' k = Some (trig[i := (t > mts ! i)]) \<and>
           alarm_emails s' = alarm_emails s @ (if t > mts ! i \<and> \<not> trig ! i then [(k, i, t)] else [])"
proof (cases "t > mts ! i")
  case True
  show ?thesis
  proof (cases "trig ! i")
    case True
    then have "trig[i := True] = trig" using list_update_id [of trig i] by simp
    with True \<open>t > mts ! i\<close> assms show ?thesis
      by (simp add: check_alarms_body_def getitem_def nth_item_def)
  next
    case False
    with True assms show ?thesis
      by (simp add: check_alarms_body_def getitem_def nth_item_def set_alarm_triggered_def
          send_alarm_email_def)
  qed
next
  case False
  with assms show ?thesis
    by (simp add: check_alarms_body_def getitem_def nth_item_def set_alarm_triggered_def)
qed

lemma check_alarms_loop_channels:
  assumes "max_temps s k = Some mts" and "alarm_triggered s k = Some trig"
    and "i + length temps = length mts" and "length trig = length mts"
  shows "\<exists>s' trig' ev. check_alarms_loop k i temps s = (None, s') \<and>
           max_temps s' = max_temps s \<and>
           alarm_triggered s' k = Some trig' \<and> length trig' = length trig \<and>
           (\<forall>j < length trig. trig' ! j = (if i \<le> j then temps ! (j - i) > mts ! j else trig ! j)) \<and>
           alarm_emails s' = alarm_emails s @ ev \<and>
           (\<forall>j. filter (\<lambda>e. fst (snd e) = j) ev =
              (if i \<le> j \<and> j < length mts \<and> temps ! (j - i) > mts ! j \<and> \<not> trig ! j
               then [(k, j, temps ! (j - i))] else []))"
  using assms
proof (induction temps arbitrary: i s trig)
  case Nil
  then show ?case by simp
next
  case (Cons t rest)
  from Cons.prems have i: "i < length mts" "i < length trig" by simp_all
  from check_alarms_body_step [OF Cons.prems(1,2) i, of t]
  obtain s1 where s1: "check_alarms_body k i t s = (None, s1)" "max_temps s1 = max_temps s"
    "alarm_triggered s1 k = Some (trig[i := (t > mts ! i)])"
    "alarm_emails s1 = alarm_emails s @ (if t > mts ! i \<and> \<not> trig ! i then [(k, i, t)] else [])"
    by blast
  define trig1 where "trig1 = trig[i := (t > mts ! i)]"
  have p: "max_temps s1 k = Some mts" "alarm_triggered s1 k = Some trig1"
    "Suc i + length rest = length mts" "length trig1 = length mts"
    using s1 Cons.prems by (simp_all add: trig1_def)
  from Cons.IH [OF p]
  obtain s' trig' ev where r: "check_alarms_loop k (Suc i) rest s1 = (None, s')"
    "max_temps s' = max_temps s1" "alarm_triggered s' k = Some trig'" "length trig' = length trig1"
    "\<forall>j < length trig1. trig' ! j = (if Suc i \<le> j then rest ! (j - Suc i) > mts ! j else trig1 ! j)"
    "alarm_emails s' = alarm_emails s1 @ ev"
    "\<forall>j. filter (\<lambda>e. fst (snd e) = j) ev =
        (if Suc i \<le> j \<and> j < length mts \<and> rest ! (j - Suc i) > mts ! j \<and> \<not> trig1 ! j
         then [(k, j, rest ! (j - Suc i))] else [])"
    by blast
  define ev0 where "ev0 = (if t > mts ! i \<and> \<not> trig ! i then [(k, i, t)] else []) @ ev"
  have 1: "check_alarms_loop k i (t # rest) s = (None, s')" using s1 r by simp
  have 2: "max_temps s' = max_temps s" using s1 r by simp
  have 3: "length trig' = length trig" using r by (simp add: trig1_def)
  have 4: "trig' ! j = (if i \<le> j then (t # rest) ! (j - i) > mts ! j else trig ! j)"
    if "j < length trig" for j
  proof -
    from that have "j < length trig1" by (simp add: trig1_def)
    with r(5) have e: "trig' ! j = (if Suc i \<le> j then rest ! (j - Suc i) > mts ! j else trig1 ! j)"
      by blast
    show ?thesis
    proof (cases "j = i")
      case True
      with e i show ?thesis by (simp add: trig1_def)
    next
      case False
      show ?thesis
      proof (cases "i < j")
        case True
        then have "(t # rest) ! (j - i) = rest ! (j - Suc i)"
          by (simp add: nth_Cons')
        with True e show ?thesis by simp
      next
        case False
        with \<open>j \<noteq> i\<close> e show ?thesis by (simp add: trig1_def)
      qed
    qed
  qed
  have 5: "alarm_emails s' = alarm_emails s @ ev0" using s1 r by (simp add: ev0_def)
  have 6: "filter (\<lambda>e. fst (snd e) = j) ev0 =
        (if i \<le> j \<and> j < length mts \<and> (t # rest) ! (j - i) > mts ! j \<and> \<not> trig ! j
         then [(k, j, (t # rest) ! (j - i))] else [])" for j
  proof (cases "j = i")
    case True
    with r(7) i show ?thesis by (simp add: ev0_def)
  next
    case False
    show ?thesis
    proof (cases "i < j")
      case True
      then have "(t # rest) ! (j - i) = rest ! (j - Suc i)"
        by (simp add: nth_Cons')
      moreover from True have "trig1 ! j = trig ! j" by (simp add: trig1_def)
      ultimately show ?thesis using True r(7) by (simp add: ev0_def)
    next
      case False
      with \<open>j \<noteq> i\<close> r(7) show ?thesis by (simp add: ev0_def)
    qed
  qed
  from 1 2 r(3) 3 4 5 6 show ?case by blast
qed


lemma length_alarm_history: "length (alarm_history k cycles s) = length cycles"
  by (induction cycles arbitrary: s) (simp_all add: Let_def)

lemma alarm_history_channel:
  assumes "max_temps s k = Some mts" and "alarm_triggered s k = Some trig"
    and "length trig = length mts" and "\<forall>c \<in> set cycles. length c = length mts"
    and "i < length mts" and "j < length cycles"
  shows "filter (\<lambda>e. fst (snd e) = i) (alarm_history k cycles s ! j) =
           (if cycles ! j ! i > mts ! i \<and>
               (if j = 0 then \<not> trig ! i else cycles ! (j - 1) ! i \<le> mts ! i)
            then [(k, i, cycles ! j ! i)] else [])"
  using assms(1,2,3,4,6)
proof (induction cycles arbitrary: s trig j)
  case Nil
  then show ?case by simp
next
  case (Cons c later)
  from Cons.prems have len: "0 + length c = length mts" by simp
  from check_alarms_loop_channels [OF Cons.prems(1,2) len Cons.prems(3)]
  obtain s' trig' ev where r: "check_alarms_loop k 0 c s = (None, s')"
    "max_temps s' = max_temps s" "alarm_triggered s' k = Some trig'" "length trig' = length trig"
    "\<forall>j < length trig. trig' ! j = (if 0 \<le> j then c ! (j - 0) > mts ! j else trig ! j)"
    "alarm_emails s' = alarm_emails s @ ev"
    "\<forall>j. filter (\<lambda>e. fst (snd e) = j) ev =
        (if 0 \<le> j \<and> j < length mts \<and> c ! (j - 0) > mts ! j \<and> \<not> trig ! j
         then [(k, j, c ! (j - 0))] else [])"
    by blast
  have h: "alarm_history k (c # later) s = ev # alarm_history k later s'"
    using r by (simp add: check_alarms_def new_alarm_emails_def)
  show ?case
  proof (cases j)
    case 0
    with h r(7) assms(5) show ?thesis by simp
  next
    case (Suc j')
    have p: "max_temps s' k = Some mts" "length trig' = length mts"
      "\<forall>c \<in> set later. length c = length mts" "j' < length later"
      using r Cons.prems Suc by simp_all
    from r(5) assms(5) Cons.prems(3) have t: "trig' ! i = (c ! i > mts ! i)" by simp
    from Cons.IH [OF p(1) r(3) p(2,3,4)]
    have "filter (\<lambda>e. fst (snd e) = i) (alarm_history k later s' ! j') =
           (if later ! j' ! i > mts ! i \<and>
               (if j' = 0 then \<not> trig' ! i else later ! (j' - 1) ! i \<le> mts ! i)
            then [(k, i, later ! j' ! i)] else [])" .
    with h Suc t show ?thesis
      by (cases j') (simp_all add: not_less)
  qed
qed

text \<open>
  Claim C2. Let a device have one threshold and one latch per channel, and let every
  cycle deliver one temperature per channel. For a channel whose latch is initially
  false, the calls of \<open>send_alarm_email\<close> for that channel, cycle by cycle, are: exactly
  one call, with the temperature of that cycle, in each cycle that starts a maximal run of
  temperatures above the threshold, and none in any other cycle. With threshold 50 and
  the temperatures 48, 52, 53, 49, 51 the calls are made in cycles 1 and 4.
\<close>

theorem one_alarm_per_run:
  assumes "max_temps s k = Some mts" and "alarm_triggered s k = Some trig"
    and "length trig = length mts" and "\<forall>c \<in> set cycles. length c = length mts"
    and "i < length mts" and "\<not> trig ! i"
  shows "map (filter (\<lambda>e. fst (snd e) = i)) (alarm_history k cycles s) =
           map (\<lambda>j. if run_start (mts ! i) (map (\<lambda>c. c ! i) cycles) j
                     then [(k, i, cycles ! j ! i)] else [])
               [0 ..< length cycles]"
proof (rule nth_equalityI)
  show "length (map (filter (\<lambda>e. fst (snd e) = i)) (alarm_history k cycles s)) =
        length (map (\<lambda>j. if run_start (mts ! i) (map (\<lambda>c. c ! i) cycles) j
                     then [(k, i, cycles ! j ! i)] else []) [0 ..< length cycles])"
    by (simp add: length_alarm_history)
next
  fix j
  assume "j < length (map (filter (\<lambda>e. fst (snd e) = i)) (alarm_history k cycles s))"
  then have j: "j < length cycles" by (simp add: length_alarm_history)
  then have "j - 1 < length cycles" by simp
  with j have rs: "run_start (mts ! i) (map (\<lambda>c. c ! i) cycles) j \<longleftrightarrow>
      cycles ! j ! i > mts ! i \<and> (j = 0 \<or> cycles ! (j - 1) ! i \<le> mts ! i)"
    by (simp add: run_start_def)
  from alarm_history_channel [OF assms(1,2,3,4,5) j] assms(6) j rs
  show "map (filter (\<lambda>e. fst (snd e) = i)) (alarm_history k cycles s) ! j =
        map (\<lambda>j. if run_start (mts ! i) (map (\<lambda>c. c ! i) cycles) j
                     then [(k, i, cycles ! j ! i)] else []) [0 ..< length cycles] ! j"
    by (simp add: length_alarm_history)
qed

theorem one_alarm_per_run_witness:
  "map (filter (\<lambda>e. fst (snd e) = 0))
     (alarm_history ''lj1'' [[48, 20], [52, 20], [53, 20], [49, 20], [51, 20]] example_monitor)
   = [[], [(''lj1'', 0, 52)], [], [], [(''lj1'', 0, 51)]]"
proof -
  have u: "[0 ..< 5] = [0, 1, 2, 3, 4 :: nat]" by (simp add: upt_rec)
  have "map (filter (\<lambda>e. fst (snd e) = 0))
     (alarm_history ''lj1'' [[48, 20], [52, 20], [53, 20], [49, 20], [51, 20]] example_monitor)
     = map (\<lambda>j. if run_start ([50, 50] ! 0)
                     (map (\<lambda>c. c ! 0) [[48, 20], [52, 20], [53, 20], [49, 20], [51, 20]]) j
                 then [(''lj1'', 0, [[48, 20], [52, 20], [53, 20], [49, 20], [51, 20]] ! j ! 0)]
                 else [])
         [0 ..< length [[48, 20], [52, 20], [53, 20], [49, 20], [51 :: real, 20]]]"
    by (rule one_alarm_per_run [where trig = "[False, False]"])
       (simp_all add: example_monitor_def)
  then show ?thesis
    by (simp add: u run_start_def)
qed

subsection \<open>The plotted window\<close>

text \<open>
  For a positive number of points the slice \<open>xs[-m:]\<close> is the last \<open>min m (length xs)\<close>
  elements, in their order.
\<close>

lemma slice_last_positive:
  "0 < m \<Longrightarrow> slice_last m xs = drop (length xs - nat m) xs \<and>
     length (slice_last m xs) = min (nat m) (length xs)"
  by (auto simp: slice_last_def Let_def max_def nat_diff_distrib')

lemma slice_last_scenario_C:
  "slice_last (min 3 (int (length [t0, t1, t2, t3, t4]))) [t0, t1, t2, t3, t4] = [t2, t3, t4]"
  by (simp add: slice_last_def)

text \<open>
  After a cycle in which the conversion failed, \<open>time_data\<close> is one entry longer than
  the rows of \<open>temp_data\<close>: in the next cycle the window of times and the rows differ
  in length and \<open>ax.plot\<close> raises.
\<close>

lemma update_plot_after_failed_cycle:
  "update_plot (snd (update_data_try example_cycle_1 (update_data example_cycle example_monitor)))
     = Inl ValueError"
proof -
  have 1: "update_data example_cycle example_monitor =
      example_monitor\<lparr>time_data := [Datetime 2024 7 1 12 0 0], after_calls := 1\<rparr>"
    by (simp add: example_simps example_cycle_def update_data_def update_data_try_def
        update_data_body_def)
  show ?thesis
    unfolding 1
    by (simp add: example_simps example_cycle_1_def update_data_try_def
        update_data_body_def hstack_def check_alarms_def check_alarms_body_def
        set_alarm_triggered_def update_plot_def slice_last_def ax_plot_def)
qed

text \<open>
  Claim C6. The claim holds for a positive window size but not for the size 0. With
  \<open>LOG_MAX = 0\<close>, after two cycles of \<open>update_data\<close> two times and two temperatures per
  channel are recorded, \<open>max_points\<close> is \<open>min 0 2 = 0\<close>, the slice \<open>[-0:]\<close> is the whole
  list, and \<open>update_plot\<close> draws both samples of every channel where the claim asks for
  none; this is also what the second cycle has put on the canvas.
\<close>

theorem update_plot_window_of_zero:
  "log_max example_log_max_0 = 0 \<and>
   time_data example_log_max_0 = [Datetime 2024 7 1 12 0 0, Datetime 2024 7 1 12 0 1] \<and>
   temp_data example_log_max_0 = [(''lj1'', [[25, 17.5], [17.5, 25]])] \<and>
   min (log_max example_log_max_0) (int (length (time_data example_log_max_0))) = 0 \<and>
   update_plot example_log_max_0 =
     Inr (Some ([Datetime 2024 7 1 12 0 0, Datetime 2024 7 1 12 0 1],
                [(''A'', [25, 17.5]), (''B'', [17.5, 25])])) \<and>
   canvas example_log_max_0 =
     Some ([Datetime 2024 7 1 12 0 0, Datetime 2024 7 1 12 0 1],
           [(''A'', [25, 17.5]), (''B'', [17.5, 25])])"
proof -
  have 1: "update_data example_cycle_1 (example_monitor\<lparr>log_max := 0\<rparr>) =
      example_monitor\<lparr>log_max := 0,
        time_data := [Datetime 2024 7 1 12 0 0],
        temp_data := [(''lj1'', [[25], [17.5]])],
        voltage_data := [(''lj1'', [[1250], [1500]])],
        canvas := Some ([Datetime 2024 7 1 12 0 0], [(''A'', [25]), (''B'', [17.5])]),
        after_calls := 1\<rparr>"
    by (simp add: example_simps example_cycle_1_def update_data_def update_data_try_def
        update_data_body_def hstack_def check_alarms_def check_alarms_body_def
        set_alarm_triggered_def update_plot_def slice_last_def ax_plot_def)
  have 2: "example_log_max_0 =
      example_monitor\<lparr>log_max := 0,
        time_data := [Datetime 2024 7 1 12 0 0, Datetime 2024 7 1 12 0 1],
        temp_data := [(''lj1'', [[25, 17.5], [17.5, 25]])],
        voltage_data := [(''lj1'', [[1250, 1500], [1500, 1250]])],
        canvas := Some ([Datetime 2024 7 1 12 0 0, Datetime 2024 7 1 12 0 1],
                        [(''A'', [25, 17.5]), (''B'', [17.5, 25])]),
        after_calls := 2\<rparr>"
    unfolding example_log_max_0_def 1
    by (simp add: example_simps example_cycle_2_def update_data_def update_data_try_def
        update_data_body_def hstack_def check_alarms_def check_alarms_body_def
        set_alarm_triggered_def update_plot_def slice_last_def ax_plot_def)
  show ?thesis
    unfolding 2
    by (simp add: example_monitor_def update_plot_def slice_last_def ax_plot_def
        getitem_def nth_item_def)
qed

subsection \<open>Loading the calibration data\<close>

text \<open>
  Claim C5, as stated, fails. With no reference points and a constructor that rejects
  them, \<open>getThermistorData\<close> returns normally and leaves the interpolator \<open>None\<close>;
  nothing is fatal, and the acquisition cycle that follows arms its timer.
\<close>

theorem getThermistorData_counterexample:
  "example_interp1d (rev (map fst [])) (rev (map snd [])) = Inl ValueError \<and>
   getThermistorData (Inr []) example_interp1d example_unloaded = (None, example_unloaded) \<and>
   temp_interpolate_50k example_unloaded = None \<and>
   after_calls (update_data example_cycle
      (snd (getThermistorData (Inr []) example_interp1d example_unloaded))) = 1"
  by (simp add: getThermistorData_def example_interp1d_def example_unloaded_def
      example_simps example_cycle_def update_data_def update_data_try_def update_data_body_def)

lemma processVoltage_body_no_interpolator:
  "temp_interpolate_50k s = None \<Longrightarrow> \<exists>e. processVoltage_body s k mV = Inl e"
  by (simp add: processVoltage_body_def Let_def split: sum.split)

text \<open>
  Claim C5, amended. \<open>getThermistorData\<close> never raises, whatever the reference points:
  when reading the file or building the interpolator fails, the error is printed, the
  monitor is left as it was and startup goes on. While the interpolator is still
  \<open>None\<close>, every conversion of a non-empty list of readings fails.
\<close>

theorem getThermistorData_never_raises:
  "fst (getThermistorData csv interp1d s) = None \<and>
   (csv = Inl e \<or> (\<exists>df. csv = Inr df \<and> interp1d (rev (map fst df)) (rev (map snd df)) = Inl e)
      \<longrightarrow> snd (getThermistorData csv interp1d s) = s) \<and>
   (temp_interpolate_50k s = None \<and> voltages \<noteq> []
      \<longrightarrow> (\<exists>e'. processVoltage s voltages k = Inl e'))"
proof -
  have 1: "fst (getThermistorData csv interp1d s) = None"
    by (simp add: getThermistorData_def split: sum.split)
  have 2: "snd (getThermistorData csv interp1d s) = s"
    if "csv = Inl e \<or> (\<exists>df. csv = Inr df \<and> interp1d (rev (map fst df)) (rev (map snd df)) = Inl e)"
    using that by (auto simp: getThermistorData_def)
  have 3: "\<exists>e'. processVoltage s voltages k = Inl e'"
    if n: "temp_interpolate_50k s = None" and v: "voltages \<noteq> []"
  proof -
    from v obtain mV rest where "voltages = mV # rest" by (cases voltages) auto
    moreover from n obtain e where "processVoltage_body s k mV = Inl e"
      using processVoltage_body_no_interpolator by blast
    ultimately show ?thesis by (simp add: processVoltage_def)
  qed
  from 1 2 3 show ?thesis by blast
qed

theorem getThermistorData_never_raises_witness:
  "fst (getThermistorData (Inr []) example_interp1d example_unloaded) = None \<and>
   snd (getThermistorData (Inr []) example_interp1d example_unloaded) = example_unloaded \<and>
   (\<exists>e'. processVoltage example_unloaded [(1250, 0)] ''lj1'' = Inl e')"
proof -
  have a: "Inr [] = (Inr [] :: error + (real \<times> real) list) \<and>
           example_interp1d (rev (map fst [])) (rev (map snd [])) = Inl ValueError"
    by (simp add: example_interp1d_def)
  have b: "temp_interpolate_50k example_unloaded = None \<and> [(1250 :: real, 0 :: nat)] \<noteq> []"
    by (simp add: example_unloaded_def)
  from getThermistorData_never_raises [of "Inr []" example_interp1d example_unloaded ValueError
      "[(1250, 0)]" "''lj1''"] a b
  show ?thesis by blast
qed

subsection \<open>Updating the thresholds\<close>

lemma parse_entries_fails:
  "entry \<in> set entries \<Longrightarrow> float_of entry = None \<Longrightarrow>
   parse_entries float_of entries = Inl ValueError"
  by (induction entries) (auto split: option.split sum.split)

lemma update_max_temps_loop_skips:
  "parse_entries float_of entries = Inl ValueError \<Longrightarrow>
   update_max_temps_loop float_of (pre @ (k, entries) # post) s =
   update_max_temps_loop float_of (pre @ post) s"
proof (induction pre arbitrary: s)
  case Nil
  then show ?case by simp
next
  case (Cons p pre)
  obtain k' es where p: "p = (k', es)" by (cases p)
  from Cons show ?case
    by (simp add: p split: sum.split prod.split option.split)
qed

lemma config_set_all_max_temps:
  "max_temps (snd (config_set_all section i temps s)) = max_temps s"
  by (induction temps arbitrary: i s) (simp_all split: option.split)

lemma update_max_temps_loop_other_keys:
  "k \<notin> fst ` set es \<Longrightarrow>
   max_temps (snd (update_max_temps_loop float_of es s)) k = max_temps s k"
proof (induction es arbitrary: s)
  case Nil
  show ?case by simp
next
  case (Cons p es)
  obtain k' entries where p: "p = (k', entries)" by (cases p)
  with Cons.prems have k: "k' \<noteq> k" "k \<notin> fst ` set es" by auto
  show ?case
  proof (cases "parse_entries float_of entries")
    case (Inl e)
    with p k Cons.IH show ?thesis by simp
  next
    case (Inr mts)
    define s1 where "s1 = s\<lparr>max_temps := (max_temps s)(k' \<mapsto> mts)\<rparr>"
    obtain r s2 where c: "config_set_all (''alarm'' @ k') 0 mts s1 = (r, s2)"
      by (cases "config_set_all (''alarm'' @ k') 0 mts s1")
    with config_set_all_max_temps [of "''alarm'' @ k'" 0 mts s1]
    have "max_temps s2 = max_temps s1" by simp
    with k have m: "max_temps s2 k = max_temps s k" by (simp add: s1_def)
    show ?thesis
    proof (cases r)
      case None
      with p Inr c m Cons.IH [OF k(2), of s2] show ?thesis
        by (simp add: s1_def)
    next
      case (Some e)
      with p Inr c m show ?thesis by (simp add: s1_def)
    qed
  qed
qed

text \<open>
  Claim C10. When one entry of a device does not parse as a number, the thresholds of
  that device stay as they were, and \<open>update_max_temps\<close> does for all the other devices
  exactly what it does when the failing device has no entries at all.
\<close>

theorem update_max_temps_all_or_nothing:
  assumes "max_temp_entries s = pre @ (k, entries) # post"
    and "distinct (map fst (max_temp_entries s))"
    and "entry \<in> set entries" and "float_of entry = None"
  shows "max_temps (snd (update_max_temps float_of s)) k = max_temps s k \<and>
         update_max_temps float_of s = update_max_temps_loop float_of (pre @ post) s"
proof -
  from assms(3,4) have f: "parse_entries float_of entries = Inl ValueError"
    by (rule parse_entries_fails)
  with assms(1) have e: "update_max_temps float_of s = update_max_temps_loop float_of (pre @ post) s"
    by (simp add: update_max_temps_def update_max_temps_loop_skips)
  from assms(1,2) have "k \<notin> fst ` set (pre @ post)" by auto
  then have "max_temps (snd (update_max_temps_loop float_of (pre @ post) s)) k = max_temps s k"
    by (rule update_max_temps_loop_other_keys)
  with e show ?thesis by simp
qed

theorem update_max_temps_all_or_nothing_witness:
  "max_temps (snd (update_max_temps example_float example_two_devices)) ''lj1'' = Some [50, 50] \<and>
   max_temps (snd (update_max_temps example_float example_two_devices)) ''lj2'' = Some [60.5] \<and>
   fst (update_max_temps example_float example_two_devices) = None"
proof -
  have a: "max_temp_entries example_two_devices
             = [] @ (''lj1'', [''50.0'', ''abc'']) # [(''lj2'', [''60.5''])]"
    and b: "distinct (map fst (max_temp_entries example_two_devices))"
    and c: "''abc'' \<in> set [''50.0'', ''abc'']" and d: "example_float ''abc'' = None"
    by (simp_all add: example_two_devices_def example_float_def)
  have t: "max_temps (snd (update_max_temps example_float example_two_devices)) ''lj1''
          = max_temps example_two_devices ''lj1'' \<and>
        update_max_temps example_float example_two_devices
          = update_max_temps_loop example_float ([] @ [(''lj2'', [''60.5''])]) example_two_devices"
    using a b c d
    by (rule update_max_temps_all_or_nothing [where s = example_two_devices and pre = "[]"
      and k = "''lj1''" and entries = "[''50.0'', ''abc'']" and post = "[(''lj2'', [''60.5''])]"
      and entry = "''abc''" and float_of = example_float])
  have u: "update_max_temps_loop example_float ([] @ [(''lj2'', [''60.5''])]) example_two_devices
        = (None, example_two_devices\<lparr>max_temps := (max_temps example_two_devices)(''lj2'' \<mapsto> [60.5]),
             config := (config example_two_devices)(''alarmlj2'' \<mapsto> [0 \<mapsto> 60.5])\<rparr>)"
    by (simp add: example_two_devices_def example_float_def example_monitor_def)
  from t have "max_temps (snd (update_max_temps example_float example_two_devices)) ''lj1''
          = max_temps example_two_devices ''lj1''"
    by (rule conjunct1)
  moreover from t u have "update_max_temps example_float example_two_devices
        = (None, example_two_devices\<lparr>max_temps := (max_temps example_two_devices)(''lj2'' \<mapsto> [60.5]),
             config := (config example_two_devices)(''alarmlj2'' \<mapsto> [0 \<mapsto> 60.5])\<rparr>)"
    by (simp only:)
  ultimately show ?thesis
    by (simp add: example_two_devices_def example_float_def)
qed

end
